theory Spec2Isabelle
  imports Main "HOL-Library.Sublist"
begin

section \<open>Strings\<close>

text \<open>
  A Python \<open>str\<close> is modelled as a HOL \<open>string\<close>; each \<open>char\<close> stands for
  one code point below 256. On these code points \<open>str.lower\<close> changes exactly the
  upper-case letters \<open>A\<close>..\<open>Z\<close> and U+00C0..U+00DE (without the multiplication sign
  U+00D7), each by adding 32, which sets bit 5 of the code point. Code points from 256
  on are outside the model.
\<close>

definition is_upper :: "char \<Rightarrow> bool" where
  "is_upper c =
     (let n = (of_char c :: nat)
      in (65 \<le> n \<and> n \<le> 90) \<or> (192 \<le> n \<and> n \<le> 222 \<and> n \<noteq> 215))"

fun set_bit5 :: "char \<Rightarrow> char" where
  "set_bit5 (Char b0 b1 b2 b3 b4 b5 b6 b7) = Char b0 b1 b2 b3 b4 True b6 b7"

definition lower_char :: "char \<Rightarrow> char" where
  "lower_char c = (if is_upper c then set_bit5 c else c)"

text \<open>\<open>s.lower()\<close>\<close>

definition lower :: "string \<Rightarrow> string" where
  "lower s = map lower_char s"

text \<open>
  The characters that \<open>\s\<close> of a \<open>str\<close> pattern matches (those of \<open>str.isspace\<close>):
  tab to carriage return, the separators U+001C..U+001F, the blank, U+0085 and U+00A0.
\<close>

definition is_space :: "char \<Rightarrow> bool" where
  "is_space c =
     (let n = (of_char c :: nat)
      in (9 \<le> n \<and> n \<le> 13) \<or> (28 \<le> n \<and> n \<le> 32) \<or> n = 133 \<or> n = 160)"

text \<open>\<open>pattern in s\<close> on strings: \<open>pattern\<close> occurs in \<open>s\<close> as a contiguous run.\<close>

fun py_in :: "string \<Rightarrow> string \<Rightarrow> bool" where
  "py_in p [] = (p = [])"
| "py_in p (c # cs) = (prefix p (c # cs) \<or> py_in p cs)"

section \<open>Request context, exceptions and the text-generation backend\<close>

text \<open>
  The state handed from node to node is a \<open>dict\<close> with the string keys \<open>input\<close>,
  \<open>output\<close>, \<open>next\<close> and \<open>processing_type\<close>; its values are strings.
\<close>

type_synonym state = "string \<rightharpoonup> string"

text \<open>\<open>state.get(key, default)\<close>\<close>

definition get :: "state \<Rightarrow> string \<Rightarrow> string \<Rightarrow> string" where
  "get st k d = (case st k of None \<Rightarrow> d | Some v \<Rightarrow> v)"

text \<open>\<open>not state.get(key)\<close>: the key is absent or its value is the empty string.\<close>

definition falsy :: "state \<Rightarrow> string \<Rightarrow> bool" where
  "falsy st k = (case st k of None \<Rightarrow> True | Some v \<Rightarrow> v = [])"

text \<open>
  What an \<open>except Exception as e\<close> clause catches: an instance of \<open>Exception\<close>, with
  the message that \<open>str(e)\<close> returns. Signals that are not instances of \<open>Exception\<close>
  (a keyboard interrupt, an interpreter exit) are not modelled.
\<close>

datatype exn = Exception string

fun str :: "exn \<Rightarrow> string" where
  "str (Exception msg) = msg"

text \<open>
  \<open>self.llm.invoke\<close>: the external backend takes a prompt and returns the generated
  text or raises.
\<close>

type_synonym invoke = "string \<Rightarrow> exn + string"

section \<open>Router\<close>

definition math_patterns :: "string list" where
  "math_patterns = [''+'', ''-'', ''*'', ''/'', ''calculate'', ''solve'', ''math'', ''equation'']"

definition summary_keywords :: "string list" where
  "summary_keywords = [''summarize'', ''summary'', ''sum up'']"

definition router_node :: "state \<Rightarrow> state" where
  "router_node st =
     (let user_input = lower (get st ''input'' [])
      in if list_ex (\<lambda>pattern. py_in pattern user_input) math_patterns
         then st(''next'' \<mapsto> ''math'', ''processing_type'' \<mapsto> ''mathematical'')
         else if list_ex (\<lambda>keyword. py_in keyword user_input) summary_keywords
         then st(''next'' \<mapsto> ''summarizer'', ''processing_type'' \<mapsto> ''summarization'')
         else st(''next'' \<mapsto> ''fallback'', ''processing_type'' \<mapsto> ''general''))"

definition decide_next_node :: "state \<Rightarrow> string" where
  "decide_next_node st = get st ''next'' ''fallback''"

section \<open>Responders\<close>

definition math_prompt :: "string \<Rightarrow> string" where
  "math_prompt user_input =
     ''\<newline>'' @
     ''        You are a mathematical problem solver. Solve the following problem step by step:\<newline>'' @
     ''        \<newline>'' @
     ''        Problem: '' @ user_input @ ''\<newline>'' @
     ''        \<newline>'' @
     ''        Please provide:\<newline>'' @
     ''        1. The calculation steps\<newline>'' @
     ''        2. The final answer\<newline>'' @
     ''        \<newline>'' @
     ''        Be precise and show your work clearly.\<newline>'' @
     ''        ''"

definition math_node :: "invoke \<Rightarrow> state \<Rightarrow> state" where
  "math_node invoke st =
     (let user_input = get st ''input'' []
      in case invoke (math_prompt user_input) of
           Inr response \<Rightarrow> st(''output'' \<mapsto> ''[MATH] Math Solution:\<newline>'' @ response)
         | Inl e \<Rightarrow>
             st(''output'' \<mapsto>
                  ''[ERROR] Math Error: Could not solve the problem. Error: '' @ str e))"

text \<open>
  \<open>re.sub(r'^summarize:?\s*', '', user_input, flags=re.IGNORECASE)\<close>. Without the
  multi-line flag \<open>^\<close> matches at the start of the string only, so there is at most one
  match; the three parts of the pattern are matched one after the other, each greedily.
  \<open>match_ci p s\<close> matches the literal \<open>p\<close> at the start of \<open>s\<close>, ignoring case, and
  returns what follows it.
\<close>

fun match_ci :: "string \<Rightarrow> string \<Rightarrow> string option" where
  "match_ci [] s = Some s"
| "match_ci (p # ps) [] = None"
| "match_ci (p # ps) (c # cs) =
     (if lower_char c = lower_char p then match_ci ps cs else None)"

fun match_opt :: "char \<Rightarrow> string \<Rightarrow> string" where
  "match_opt x [] = []"
| "match_opt x (c # cs) = (if c = x then cs else c # cs)"

definition text_to_summarize :: "string \<Rightarrow> string" where
  "text_to_summarize user_input =
     (case match_ci ''summarize'' user_input of
        None \<Rightarrow> user_input
      | Some rest \<Rightarrow> dropWhile is_space (match_opt CHR '':'' rest))"

text \<open>
  The removal as the specification words it, for comparison with \<open>text_to_summarize\<close>:
  an optional run of leading whitespace, then the token \<open>summarize\<close> in any case, then an
  optional colon.
\<close>

definition spec_text_to_summarize :: "string \<Rightarrow> string" where
  "spec_text_to_summarize user_input =
     (case match_ci ''summarize'' (dropWhile is_space user_input) of
        None \<Rightarrow> user_input
      | Some rest \<Rightarrow> match_opt CHR '':'' rest)"

definition summary_prompt :: "string \<Rightarrow> string" where
  "summary_prompt text =
     ''\<newline>'' @
     ''        You are a text summarization expert. Create a concise and informative summary of the following text:\<newline>'' @
     ''        \<newline>'' @
     ''        Text to summarize: '' @ text @ ''\<newline>'' @
     ''        \<newline>'' @
     ''        Please provide:\<newline>'' @
     ''        1. A brief summary (2-3 sentences)\<newline>'' @
     ''        2. Key points if applicable\<newline>'' @
     ''        \<newline>'' @
     ''        Keep it clear and concise.\<newline>'' @
     ''        ''"

definition summarizer_node :: "invoke \<Rightarrow> state \<Rightarrow> state" where
  "summarizer_node invoke st =
     (let user_input = get st ''input'' []
      in case invoke (summary_prompt (text_to_summarize user_input)) of
           Inr response \<Rightarrow> st(''output'' \<mapsto> ''[SUMMARY] Summary:\<newline>'' @ response)
         | Inl e \<Rightarrow>
             st(''output'' \<mapsto>
                  ''[ERROR] Summary Error: Could not summarize the text. Error: '' @ str e))"

definition general_prompt :: "string \<Rightarrow> string" where
  "general_prompt user_input =
     ''\<newline>'' @
     ''            You are a helpful assistant. Please respond to the following query:\<newline>'' @
     ''            \<newline>'' @
     ''            Query: '' @ user_input @ ''\<newline>'' @
     ''            \<newline>'' @
     ''            Provide a helpful and informative response.\<newline>'' @
     ''            ''"

text \<open>
  The first half of \<open>final_node\<close>: the general Responder, run only when no output has
  been produced so far.
\<close>

definition final_fallback :: "invoke \<Rightarrow> state \<Rightarrow> state" where
  "final_fallback invoke st =
     (if falsy st ''output''
      then (let user_input = get st ''input'' []
            in case invoke (general_prompt user_input) of
                 Inr response \<Rightarrow>
                   st(''output'' \<mapsto> ''[GENERAL] General Response:\<newline>'' @ response)
               | Inl e \<Rightarrow>
                   st(''output'' \<mapsto>
                        ''[ERROR] Error: Could not process your request. Error: '' @ str e))
      else st)"

text \<open>
  The second half: the arguments of the seven \<open>print\<close> calls, in order. The key
  \<open>output\<close> is present when \<open>state["output"]\<close> is read, since the first half writes
  it whenever it is absent.
\<close>

definition final_print :: "state \<Rightarrow> string list" where
  "final_print st =
     [replicate 50 CHR ''='',
      ''AGENT RESPONSE'',
      replicate 50 CHR ''='',
      get st ''output'' [],
      replicate 50 CHR ''='',
      ''Processing Type: '' @ get st ''processing_type'' ''Unknown'',
      ''Route Taken: '' @ get st ''next'' ''Unknown'',
      replicate 50 CHR ''='']"

text \<open>\<open>final_node\<close> returns the state and, as its effect, the lines printed.\<close>

definition final_node :: "invoke \<Rightarrow> state \<Rightarrow> state \<times> string list" where
  "final_node invoke st = (let st' = final_fallback invoke st in (st', final_print st'))"

section \<open>The graph\<close>

text \<open>
  \<open>_build_graph\<close> registers four nodes, enters at the router, leaves the router along a
  conditional edge that maps the value of \<open>decide_next_node\<close> to a node, and has the
  fixed edges math to final, summarizer to final and final to \<open>END\<close>.
\<close>

datatype node = Router | Math | Summarizer | Final | END

fun run_node :: "invoke \<Rightarrow> node \<Rightarrow> state \<Rightarrow> state" where
  "run_node invoke Router st = router_node st"
| "run_node invoke Math st = math_node invoke st"
| "run_node invoke Summarizer st = summarizer_node invoke st"
| "run_node invoke Final st = fst (final_node invoke st)"
| "run_node invoke END st = st"

definition conditional_edges :: "string \<rightharpoonup> node" where
  "conditional_edges =
     [''math'' \<mapsto> Math, ''summarizer'' \<mapsto> Summarizer, ''fallback'' \<mapsto> Final]"

text \<open>
  The edge taken after a node has run. A value of \<open>decide_next_node\<close> that the mapping
  of the conditional edge does not know makes the graph library raise.
\<close>

fun successor :: "node \<Rightarrow> state \<Rightarrow> exn + node" where
  "successor Router st =
     (case conditional_edges (decide_next_node st) of
        Some n \<Rightarrow> Inr n
      | None \<Rightarrow> Inl (Exception (decide_next_node st)))"
| "successor Math st = Inr Final"
| "successor Summarizer st = Inr Final"
| "successor Final st = Inr END"
| "successor END st = Inr END"

fun rank :: "node \<Rightarrow> nat" where
  "rank Router = 3"
| "rank Math = 2"
| "rank Summarizer = 2"
| "rank Final = 1"
| "rank END = 0"

text \<open>
  Running the graph from a node: the nodes executed, each with the state it returned.
\<close>

function exec :: "invoke \<Rightarrow> node \<Rightarrow> state \<Rightarrow> exn + (node \<times> state) list" where
  "exec invoke n st =
     (if n = END then Inr []
      else (let st' = run_node invoke n st
            in case successor n st' of
                 Inl e \<Rightarrow> Inl e
               | Inr n' \<Rightarrow>
                   (case exec invoke n' st' of
                      Inl e \<Rightarrow> Inl e
                    | Inr tr \<Rightarrow> Inr ((n, st') # tr))))"
  by pat_completeness auto
termination
  by (relation "measure (\<lambda>(invoke, n, st). rank n)") (auto simp: conditional_edges_def split: if_splits option.splits elim!: successor.elims)

declare exec.simps [simp del]

text \<open>
  The nodes of a run that wrote the \<open>output\<close> field: those whose returned state holds
  another output than the state they were given.
\<close>

fun output_writers :: "state \<Rightarrow> (node \<times> state) list \<Rightarrow> node list" where
  "output_writers st [] = []"
| "output_writers st ((n, st') # tr) =
     (if st' ''output'' = st ''output'' then [] else [n]) @ output_writers st' tr"

text \<open>\<open>self.graph.invoke(initial_state)\<close> for the graph that \<open>_build_graph\<close> compiles.\<close>

definition graph_invoke :: "invoke \<Rightarrow> state \<Rightarrow> exn + state" where
  "graph_invoke invoke st =
     (case exec invoke Router st of
        Inl e \<Rightarrow> Inl e
      | Inr tr \<Rightarrow> Inr (if tr = [] then st else snd (last tr)))"

section \<open>The agent\<close>

record agent =
  llm :: invoke
  graph :: "state \<Rightarrow> exn + state"

text \<open>\<open>MistralAgent.__init__\<close>, given the backend it has constructed.\<close>

definition MistralAgent :: "invoke \<Rightarrow> agent" where
  "MistralAgent backend = \<lparr>llm = backend, graph = graph_invoke backend\<rparr>"

definition initial_state :: "string \<Rightarrow> state" where
  "initial_state user_input =
     [''input'' \<mapsto> user_input, ''output'' \<mapsto> [], ''next'' \<mapsto> [], ''processing_type'' \<mapsto> []]"

definition run :: "agent \<Rightarrow> string \<Rightarrow> state" where
  "run self user_input =
     (case graph self (initial_state user_input) of
        Inr result \<Rightarrow> result
      | Inl e \<Rightarrow>
          [''input'' \<mapsto> user_input,
           ''output'' \<mapsto> ''[ERROR] Agent Error: '' @ str e,
           ''next'' \<mapsto> ''error'',
           ''processing_type'' \<mapsto> ''error''])"

section \<open>Properties of the string operations\<close>

lemma py_in_sublist: "py_in p s \<longleftrightarrow> sublist p s"
  by (induction s) (simp_all add: sublist_Cons_right)

lemma lower_char_other: "\<not> is_upper c \<Longrightarrow> lower_char c = c"
  by (simp add: lower_char_def)

lemma set_bit5_plus32:
  "\<not> b5 \<Longrightarrow> (of_char (set_bit5 (Char b0 b1 b2 b3 b4 b5 b6 b7)) :: nat) = of_char (Char b0 b1 b2 b3 b4 b5 b6 b7) + 32"
  by simp

lemma is_upper_bit5: "is_upper (Char b0 b1 b2 b3 b4 b5 b6 b7) \<Longrightarrow> \<not> b5"
  by (cases b0; cases b1; cases b2; cases b3; cases b4; cases b5; cases b6; cases b7;
      simp add: is_upper_def)

lemma lower_char_plus32: "is_upper c \<Longrightarrow> of_char (lower_char c) = (of_char c :: nat) + 32"
proof (cases c)
  case (Char b0 b1 b2 b3 b4 b5 b6 b7)
  assume u: "is_upper c"
  with Char have "\<not> b5" by (auto dest: is_upper_bit5)
  with u Char show ?thesis
    by (simp add: lower_char_def)
qed

section \<open>Properties of the router\<close>

lemma set_math_patterns:
  "set math_patterns = {''+'', ''-'', ''*'', ''/'', ''calculate'', ''solve'', ''math'', ''equation''}"
  by (simp add: math_patterns_def)

lemma set_summary_keywords:
  "set summary_keywords = {''summarize'', ''summary'', ''sum up''}"
  by (simp add: summary_keywords_def)

lemma any_math: "list_ex (\<lambda>pattern. py_in pattern s) math_patterns \<longleftrightarrow> (\<exists>p \<in> set math_patterns. sublist p s)"
  by (simp add: list_ex_iff py_in_sublist)

lemma any_summary: "list_ex (\<lambda>keyword. py_in keyword s) summary_keywords \<longleftrightarrow> (\<exists>p \<in> set summary_keywords. sublist p s)"
  by (simp add: list_ex_iff py_in_sublist)

text \<open>
  C1. Whenever the lower-cased input contains one of the math markers \<open>+\<close>, \<open>-\<close>,
  \<open>*\<close>, \<open>/\<close>, \<open>calculate\<close>, \<open>solve\<close>, \<open>math\<close>, \<open>equation\<close>, whatever stands
  before and after it, the router selects the math route: \<open>next\<close> becomes \<open>math\<close> and
  \<open>processing_type\<close> becomes \<open>mathematical\<close>, and nothing else in the state changes.
\<close>

theorem router_math_first:
  assumes "p \<in> {''+'', ''-'', ''*'', ''/'', ''calculate'', ''solve'', ''math'', ''equation''}"
    and "lower (get st ''input'' []) = a @ p @ b"
  shows "router_node st = st(''next'' \<mapsto> ''math'', ''processing_type'' \<mapsto> ''mathematical'')"
proof -
  have "p \<in> set math_patterns"
    using assms(1) by (simp only: set_math_patterns)
  moreover have "sublist p (lower (get st ''input'' []))"
    unfolding assms(2) by (rule sublist_appendI)
  ultimately have "list_ex (\<lambda>pattern. py_in pattern (lower (get st ''input'' []))) math_patterns"
    unfolding any_math by (rule rev_bexI [where x = p])
  then show ?thesis
    by (simp add: router_node_def)
qed

theorem router_math_first_witness:
  "router_node (initial_state ''What is 15 + 25 * 3?'') =
     (initial_state ''What is 15 + 25 * 3?'')(''next'' \<mapsto> ''math'', ''processing_type'' \<mapsto> ''mathematical'')"
proof (rule router_math_first [where p = "''+''" and a = "''what is 15 ''" and b = "'' 25 * 3?''"])
  show "''+'' \<in> {''+'', ''-'', ''*'', ''/'', ''calculate'', ''solve'', ''math'', ''equation''}"
    by simp
  show "lower (get (initial_state ''What is 15 + 25 * 3?'') ''input'' []) = ''what is 15 '' @ ''+'' @ '' 25 * 3?''"
    by (simp add: initial_state_def get_def lower_def lower_char_def is_upper_def)
qed

lemma router_node_summary:
  assumes "\<not> list_ex (\<lambda>pattern. py_in pattern (lower (get st ''input'' []))) math_patterns"
    and "list_ex (\<lambda>keyword. py_in keyword (lower (get st ''input'' []))) summary_keywords"
  shows "router_node st = st(''next'' \<mapsto> ''summarizer'', ''processing_type'' \<mapsto> ''summarization'')"
  using assms by (simp add: router_node_def)

lemma router_node_general:
  assumes "\<not> list_ex (\<lambda>pattern. py_in pattern (lower (get st ''input'' []))) math_patterns"
    and "\<not> list_ex (\<lambda>keyword. py_in keyword (lower (get st ''input'' []))) summary_keywords"
  shows "router_node st = st(''next'' \<mapsto> ''fallback'', ''processing_type'' \<mapsto> ''general'')"
  using assms by (simp add: router_node_def)

text \<open>
  C2. When the lower-cased input contains one of the keywords \<open>summarize\<close>,
  \<open>summary\<close>, \<open>sum up\<close> and none of the eight math markers, the router selects the
  summarizer route: \<open>next\<close> becomes \<open>summarizer\<close> and \<open>processing_type\<close> becomes
  \<open>summarization\<close>.
\<close>

theorem router_summarize_second:
  assumes "k \<in> {''summarize'', ''summary'', ''sum up''}"
    and "sublist k (lower (get st ''input'' []))"
    and "\<forall>p \<in> {''+'', ''-'', ''*'', ''/'', ''calculate'', ''solve'', ''math'', ''equation''}.
           \<not> sublist p (lower (get st ''input'' []))"
  shows "router_node st = st(''next'' \<mapsto> ''summarizer'', ''processing_type'' \<mapsto> ''summarization'')"
proof (rule router_node_summary)
  show "\<not> list_ex (\<lambda>pattern. py_in pattern (lower (get st ''input'' []))) math_patterns"
    unfolding any_math using assms(3) [folded set_math_patterns] by simp
  have "k \<in> set summary_keywords"
    using assms(1) by (simp only: set_summary_keywords)
  then show "list_ex (\<lambda>keyword. py_in keyword (lower (get st ''input'' []))) summary_keywords"
    unfolding any_summary using assms(2) by (rule rev_bexI [where x = k])
qed

lemma lower_sum_up: "lower ''Sum up this information'' = ''sum up this information''"
  by (simp add: lower_def lower_char_def is_upper_def)

theorem router_summarize_second_witness:
  "router_node (initial_state ''Sum up this information'') =
     (initial_state ''Sum up this information'')
       (''next'' \<mapsto> ''summarizer'', ''processing_type'' \<mapsto> ''summarization'')"
proof (rule router_summarize_second [where k = "''sum up''"])
  have inp: "lower (get (initial_state ''Sum up this information'') ''input'' []) = ''sum up this information''"
    by (simp add: initial_state_def get_def lower_sum_up)
  show "''sum up'' \<in> {''summarize'', ''summary'', ''sum up''}"
    by simp
  show "sublist ''sum up'' (lower (get (initial_state ''Sum up this information'') ''input'' []))"
    unfolding inp by (simp add: sublist_Cons_right)
  show "\<forall>p \<in> {''+'', ''-'', ''*'', ''/'', ''calculate'', ''solve'', ''math'', ''equation''}.
           \<not> sublist p (lower (get (initial_state ''Sum up this information'') ''input'' []))"
    unfolding inp by (simp add: sublist_Cons_right)
qed

text \<open>
  C3. When the lower-cased input contains neither a math marker nor a summarize
  keyword, the router selects the fallback route with \<open>processing_type\<close> set to
  \<open>general\<close>; the request made from the empty input string is such a case.
\<close>

theorem router_general_otherwise:
  "((\<forall>p \<in> {''+'', ''-'', ''*'', ''/'', ''calculate'', ''solve'', ''math'', ''equation'',
              ''summarize'', ''summary'', ''sum up''}.
        \<not> sublist p (lower (get st ''input'' []))) \<longrightarrow>
      router_node st = st(''next'' \<mapsto> ''fallback'', ''processing_type'' \<mapsto> ''general''))
   \<and> router_node (initial_state []) =
       (initial_state [])(''next'' \<mapsto> ''fallback'', ''processing_type'' \<mapsto> ''general'')"
proof (intro conjI impI)
  assume h: "\<forall>p \<in> {''+'', ''-'', ''*'', ''/'', ''calculate'', ''solve'', ''math'', ''equation'',
             ''summarize'', ''summary'', ''sum up''}. \<not> sublist p (lower (get st ''input'' []))"
  have m: "\<forall>p \<in> set math_patterns. \<not> sublist p (lower (get st ''input'' []))"
    using h by (simp add: set_math_patterns)
  have k: "\<forall>p \<in> set summary_keywords. \<not> sublist p (lower (get st ''input'' []))"
    using h by (simp add: set_summary_keywords)
  show "router_node st = st(''next'' \<mapsto> ''fallback'', ''processing_type'' \<mapsto> ''general'')"
  proof (rule router_node_general)
    show "\<not> list_ex (\<lambda>pattern. py_in pattern (lower (get st ''input'' []))) math_patterns"
      unfolding any_math using m by simp
    show "\<not> list_ex (\<lambda>keyword. py_in keyword (lower (get st ''input'' []))) summary_keywords"
      unfolding any_summary using k by simp
  qed
next
  show "router_node (initial_state []) =
     (initial_state [])(''next'' \<mapsto> ''fallback'', ''processing_type'' \<mapsto> ''general'')"
    by (simp add: router_node_def initial_state_def get_def lower_def math_patterns_def
        summary_keywords_def)
qed

lemma lower_hello: "lower ''Hello, how are you?'' = ''hello, how are you?''"
  by (simp add: lower_def lower_char_def is_upper_def)

theorem router_general_otherwise_witness:
  "router_node (initial_state ''Hello, how are you?'') =
     (initial_state ''Hello, how are you?'')
       (''next'' \<mapsto> ''fallback'', ''processing_type'' \<mapsto> ''general'')"
proof -
  have inp: "lower (get (initial_state ''Hello, how are you?'') ''input'' []) = ''hello, how are you?''"
    by (simp add: initial_state_def get_def lower_hello)
  have h: "\<forall>p \<in> {''+'', ''-'', ''*'', ''/'', ''calculate'', ''solve'', ''math'', ''equation'',
             ''summarize'', ''summary'', ''sum up''}.
       \<not> sublist p (lower (get (initial_state ''Hello, how are you?'') ''input'' []))"
    unfolding inp by (simp add: sublist_Cons_right)
  show ?thesis
    by (rule router_general_otherwise [of "initial_state ''Hello, how are you?''",
          THEN conjunct1, THEN mp, OF h])
qed

text \<open>
  C9. The router's decision is a function of the input text alone: two states with
  the same input receive the same route and the same processing type, whatever their
  other fields hold; the router leaves the input as it was, and routing a state that
  has been routed already changes nothing.
\<close>

theorem router_deterministic:
  "(get st ''input'' [] = get st' ''input'' [] \<longrightarrow>
      router_node st ''next'' = router_node st' ''next''
      \<and> router_node st ''processing_type'' = router_node st' ''processing_type'')
   \<and> router_node (router_node st) = router_node st
   \<and> router_node st ''input'' = st ''input''"
proof (intro conjI impI)
  assume "get st ''input'' [] = get st' ''input'' []"
  then show "router_node st ''next'' = router_node st' ''next''"
    by (simp add: router_node_def Let_def)
next
  assume "get st ''input'' [] = get st' ''input'' []"
  then show "router_node st ''processing_type'' = router_node st' ''processing_type''"
    by (simp add: router_node_def Let_def)
next
  show inp: "router_node st ''input'' = st ''input''"
    by (simp add: router_node_def Let_def)
  then have "get (router_node st) ''input'' [] = get st ''input'' []"
    by (simp add: get_def)
  then show "router_node (router_node st) = router_node st"
    by (simp add: router_node_def Let_def)
qed

theorem router_deterministic_witness:
  "get [''input'' \<mapsto> ''2+2'', ''output'' \<mapsto> ''old''] ''input'' [] = get (initial_state ''2+2'') ''input'' []
   \<and> router_node [''input'' \<mapsto> ''2+2'', ''output'' \<mapsto> ''old''] ''next'' = router_node (initial_state ''2+2'') ''next''
   \<and> router_node [''input'' \<mapsto> ''2+2'', ''output'' \<mapsto> ''old''] ''processing_type'' =
       router_node (initial_state ''2+2'') ''processing_type''"
proof -
  have h: "get [''input'' \<mapsto> ''2+2'', ''output'' \<mapsto> ''old''] ''input'' [] = get (initial_state ''2+2'') ''input'' []"
    by (simp add: get_def initial_state_def)
  from h router_deterministic [of "[''input'' \<mapsto> ''2+2'', ''output'' \<mapsto> ''old'']" "initial_state ''2+2''",
      THEN conjunct1, THEN mp, OF h]
  show ?thesis by (rule conjI)
qed

section \<open>Removing the summarize prefix\<close>

lemma match_ci_append:
  "map lower_char tok = map lower_char p \<Longrightarrow> match_ci p (tok @ rest) = Some rest"
proof (induction p arbitrary: tok)
  case Nil
  then show ?case by simp
next
  case (Cons c p)
  then obtain d tok' where "tok = d # tok'"
    by (cases tok) auto
  with Cons show ?case by simp
qed

lemma match_ci_prefix:
  "match_ci p s = Some r \<Longrightarrow> prefix (map lower_char p) (map lower_char s)"
  by (induction p s rule: match_ci.induct) (auto split: if_splits)

lemma lower_summarize: "map lower_char ''summarize'' = ''summarize''"
  by (simp add: lower_char_def is_upper_def)

text \<open>
  C5, as stated, fails: an input in which whitespace stands before the token is passed on
  unchanged, since the pattern is anchored at the first character, whereas the removal
  the specification describes would strip the whitespace, the token and the colon.
\<close>

theorem summarize_prefix_not_after_whitespace:
  "text_to_summarize ''  Summarize: abc'' = ''  Summarize: abc''
   \<and> spec_text_to_summarize ''  Summarize: abc'' = '' abc''
   \<and> text_to_summarize ''  Summarize: abc'' \<noteq> spec_text_to_summarize ''  Summarize: abc''"
  by (simp add: text_to_summarize_def spec_text_to_summarize_def lower_char_def is_upper_def
      is_space_def)

text \<open>
  C5, amended. \<open>text_to_summarize\<close> removes, from the very start of the input, the
  token \<open>summarize\<close> in any mix of cases, a colon if one follows it directly, and then the
  whole run of whitespace that follows. An input whose lower-cased form does not begin
  with \<open>summarize\<close> (one with whitespace before the token, for instance) is passed on
  unchanged. The input \<open>Summarize: how is earth formed?\<close> yields
  \<open>how is earth formed?\<close>.
\<close>

theorem summarize_prefix_removed:
  "(lower tok = ''summarize'' \<longrightarrow>
      text_to_summarize (tok @ rest) = dropWhile is_space (match_opt CHR '':'' rest))
   \<and> (\<not> prefix ''summarize'' (lower user_input) \<longrightarrow> text_to_summarize user_input = user_input)
   \<and> text_to_summarize ''Summarize: how is earth formed?'' = ''how is earth formed?''"
proof (intro conjI impI)
  assume "lower tok = ''summarize''"
  then have "map lower_char tok = map lower_char ''summarize''"
    by (simp only: lower_def lower_summarize)
  then have "match_ci ''summarize'' (tok @ rest) = Some rest"
    by (rule match_ci_append)
  then show "text_to_summarize (tok @ rest) = dropWhile is_space (match_opt CHR '':'' rest)"
    by (simp add: text_to_summarize_def)
next
  assume n: "\<not> prefix ''summarize'' (lower user_input)"
  have "match_ci ''summarize'' user_input = None"
  proof (cases "match_ci ''summarize'' user_input")
    case None
    then show ?thesis .
  next
    case (Some r)
    then have "prefix (map lower_char ''summarize'') (map lower_char user_input)"
      by (rule match_ci_prefix)
    with n show ?thesis
      by (simp only: lower_def lower_summarize)
  qed
  then show "text_to_summarize user_input = user_input"
    by (simp add: text_to_summarize_def)
next
  show "text_to_summarize ''Summarize: how is earth formed?'' = ''how is earth formed?''"
    by (simp add: text_to_summarize_def lower_char_def is_upper_def is_space_def)
qed

theorem summarize_prefix_removed_witness:
  "text_to_summarize (''SUMMARIZE'' @ '':  x'') = ''x''
   \<and> text_to_summarize ''  summarize: abc'' = ''  summarize: abc''"
proof
  have "lower ''SUMMARIZE'' = ''summarize''"
    by (simp add: lower_def lower_char_def is_upper_def)
  from summarize_prefix_removed [where tok = "''SUMMARIZE''" and rest = "'':  x''",
      THEN conjunct1, THEN mp, OF this]
  show "text_to_summarize (''SUMMARIZE'' @ '':  x'') = ''x''"
    by (simp add: is_space_def)
next
  have "\<not> prefix ''summarize'' (lower ''  summarize: abc'')"
    by (simp add: lower_def lower_char_def is_upper_def)
  from summarize_prefix_removed [where user_input = "''  summarize: abc''",
      THEN conjunct2, THEN conjunct1, THEN mp, OF this]
  show "text_to_summarize ''  summarize: abc'' = ''  summarize: abc''" .
qed

section \<open>Responders and graph execution\<close>

lemma math_node_output:
  "\<exists>out. math_node invoke st ''output'' = Some out \<and> out \<noteq> []"
  by (cases "invoke (math_prompt (get st ''input'' []))") (simp_all add: math_node_def)

lemma summarizer_node_output:
  "\<exists>out. summarizer_node invoke st ''output'' = Some out \<and> out \<noteq> []"
  by (cases "invoke (summary_prompt (text_to_summarize (get st ''input'' [])))")
    (simp_all add: summarizer_node_def)

lemma falsy_iff: "falsy st k \<longleftrightarrow> st k = None \<or> st k = Some []"
  by (simp add: falsy_def split: option.splits)

lemma math_node_truthy: "\<not> falsy (math_node invoke st) ''output''"
  using math_node_output [of invoke st] by (auto simp: falsy_iff)

lemma summarizer_node_truthy: "\<not> falsy (summarizer_node invoke st) ''output''"
  using summarizer_node_output [of invoke st] by (auto simp: falsy_iff)

lemma final_fallback_truthy: "\<not> falsy (final_fallback invoke st) ''output''"
proof (cases "falsy st ''output''")
  case True
  then show ?thesis
    by (cases "invoke (general_prompt (get st ''input'' []))")
      (simp_all add: final_fallback_def falsy_iff)
next
  case False
  then show ?thesis by (simp add: final_fallback_def)
qed

lemma final_fallback_id: "\<not> falsy st ''output'' \<Longrightarrow> final_fallback invoke st = st"
  by (simp add: final_fallback_def)

lemma fst_final_node: "fst (final_node invoke st) = final_fallback invoke st"
  by (simp add: final_node_def Let_def)

lemma exec_END: "exec invoke END st = Inr []"
  by (simp add: exec.simps)

lemma exec_Final: "exec invoke Final st = Inr [(Final, final_fallback invoke st)]"
  by (simp add: exec.simps [of invoke Final] exec_END fst_final_node)

lemma exec_Math:
  "exec invoke Math st = Inr [(Math, math_node invoke st), (Final, math_node invoke st)]"
  by (simp add: exec.simps [of invoke Math] Let_def exec_Final final_fallback_id math_node_truthy)

lemma exec_Summarizer:
  "exec invoke Summarizer st =
     Inr [(Summarizer, summarizer_node invoke st), (Final, summarizer_node invoke st)]"
  by (simp add: exec.simps [of invoke Summarizer] Let_def exec_Final final_fallback_id
      summarizer_node_truthy)

lemma router_node_cases:
  "router_node st = st(''next'' \<mapsto> ''math'', ''processing_type'' \<mapsto> ''mathematical'')
   \<or> router_node st = st(''next'' \<mapsto> ''summarizer'', ''processing_type'' \<mapsto> ''summarization'')
   \<or> router_node st = st(''next'' \<mapsto> ''fallback'', ''processing_type'' \<mapsto> ''general'')"
  by (simp add: router_node_def Let_def)

lemma exec_Router:
  "exec invoke Router st =
     (case conditional_edges (decide_next_node (router_node st)) of
        None \<Rightarrow> Inl (Exception (decide_next_node (router_node st)))
      | Some n \<Rightarrow>
          (case exec invoke n (router_node st) of
             Inl e \<Rightarrow> Inl e
           | Inr tr \<Rightarrow> Inr ((Router, router_node st) # tr)))"
  by (simp add: exec.simps [of invoke Router] Let_def split: option.splits)

lemma route_math:
  assumes "router_node st ''next'' = Some ''math''"
  shows "exec invoke Router st =
     Inr [(Router, router_node st), (Math, math_node invoke (router_node st)),
          (Final, math_node invoke (router_node st))]"
  using assms by (simp add: exec_Router decide_next_node_def get_def conditional_edges_def exec_Math)

lemma route_summarizer:
  assumes "router_node st ''next'' = Some ''summarizer''"
  shows "exec invoke Router st =
     Inr [(Router, router_node st), (Summarizer, summarizer_node invoke (router_node st)),
          (Final, summarizer_node invoke (router_node st))]"
  using assms
  by (simp add: exec_Router decide_next_node_def get_def conditional_edges_def exec_Summarizer)

lemma route_fallback:
  assumes "router_node st ''next'' = Some ''fallback''"
  shows "exec invoke Router st =
     Inr [(Router, router_node st), (Final, final_fallback invoke (router_node st))]"
  using assms
  by (simp add: exec_Router decide_next_node_def get_def conditional_edges_def exec_Final)

lemma router_node_next:
  "router_node st ''next'' = Some ''math'' \<or> router_node st ''next'' = Some ''summarizer''
   \<or> router_node st ''next'' = Some ''fallback''"
  by (simp add: router_node_def Let_def)

lemma router_node_input: "get (router_node st) ''input'' [] = get st ''input'' []"
  by (simp add: router_node_def Let_def get_def)

lemma router_node_output: "router_node st ''output'' = st ''output''"
  by (simp add: router_node_def Let_def)

lemma graph_invoke_result:
  "graph_invoke invoke st =
     Inr (if router_node st ''next'' = Some ''math'' then math_node invoke (router_node st)
          else if router_node st ''next'' = Some ''summarizer''
          then summarizer_node invoke (router_node st)
          else final_fallback invoke (router_node st))"
proof -
  consider (m) "router_node st ''next'' = Some ''math''"
    | (s) "router_node st ''next'' = Some ''summarizer''"
    | (f) "router_node st ''next'' = Some ''fallback''"
    using router_node_next [of st] by blast
  then show ?thesis
  proof cases
    case m
    then show ?thesis by (simp add: graph_invoke_def route_math)
  next
    case s
    then show ?thesis by (simp add: graph_invoke_def route_summarizer)
  next
    case f
    then show ?thesis by (simp add: graph_invoke_def route_fallback)
  qed
qed

lemma run_result:
  "run (MistralAgent invoke) user_input =
     (if router_node (initial_state user_input) ''next'' = Some ''math''
      then math_node invoke (router_node (initial_state user_input))
      else if router_node (initial_state user_input) ''next'' = Some ''summarizer''
      then summarizer_node invoke (router_node (initial_state user_input))
      else final_fallback invoke (router_node (initial_state user_input)))"
  by (simp add: run_def MistralAgent_def graph_invoke_result)

lemma initial_input: "get (router_node (initial_state user_input)) ''input'' [] = user_input"
  by (simp add: router_node_input) (simp add: initial_state_def get_def)

lemma initial_falsy: "falsy (router_node (initial_state user_input)) ''output''"
  by (simp add: falsy_iff router_node_output) (simp add: initial_state_def)

lemma math_node_raise:
  "invoke (math_prompt (get st ''input'' [])) = Inl e \<Longrightarrow>
   math_node invoke st =
     st(''output'' \<mapsto> ''[ERROR] Math Error: Could not solve the problem. Error: '' @ str e)"
  by (simp add: math_node_def)

lemma summarizer_node_raise:
  "invoke (summary_prompt (text_to_summarize (get st ''input'' []))) = Inl e \<Longrightarrow>
   summarizer_node invoke st =
     st(''output'' \<mapsto> ''[ERROR] Summary Error: Could not summarize the text. Error: '' @ str e)"
  by (simp add: summarizer_node_def)

lemma final_fallback_raise:
  "falsy st ''output'' \<Longrightarrow> invoke (general_prompt (get st ''input'' [])) = Inl e \<Longrightarrow>
   final_fallback invoke st =
     st(''output'' \<mapsto> ''[ERROR] Error: Could not process your request. Error: '' @ str e)"
  by (simp add: final_fallback_def)

lemma error_string: "prefix ''[ERROR]'' (''[ERROR]'' @ t @ m) \<and> suffix m (''[ERROR]'' @ t @ m)
    \<and> ''[ERROR]'' @ t @ m \<noteq> []"
proof (intro conjI)
  show "prefix ''[ERROR]'' (''[ERROR]'' @ t @ m)" by (rule prefixI) (rule refl)
  show "suffix m (''[ERROR]'' @ t @ m)" by (rule suffixI [of _ "''[ERROR]'' @ t"]) simp
  show "''[ERROR]'' @ t @ m \<noteq> []" by simp
qed

text \<open>
  C4. An exception raised by the backend call is caught by the Responder that made the
  call: the math node, the summarizer node and the general branch of the final node each
  return normally, with \<open>output\<close> set to a string that starts with \<open>[ERROR]\<close> and ends
  with the message of the exception, and with every other field as it was. A request
  whose backend call raises therefore completes, and its output is a non-empty string
  with the prefix \<open>[ERROR]\<close> and the message at its end.
\<close>

theorem backend_exception_caught:
  "(invoke (math_prompt (get st ''input'' [])) = Inl e \<longrightarrow>
      math_node invoke st =
        st(''output'' \<mapsto> ''[ERROR] Math Error: Could not solve the problem. Error: '' @ str e))
   \<and> (invoke (summary_prompt (text_to_summarize (get st ''input'' []))) = Inl e \<longrightarrow>
      summarizer_node invoke st =
        st(''output'' \<mapsto> ''[ERROR] Summary Error: Could not summarize the text. Error: '' @ str e))
   \<and> (falsy st ''output'' \<and> invoke (general_prompt (get st ''input'' [])) = Inl e \<longrightarrow>
      fst (final_node invoke st) =
        st(''output'' \<mapsto> ''[ERROR] Error: Could not process your request. Error: '' @ str e))
   \<and> (invoke (math_prompt user_input) = Inl e
        \<and> invoke (summary_prompt (text_to_summarize user_input)) = Inl e
        \<and> invoke (general_prompt user_input) = Inl e \<longrightarrow>
      (\<exists>out. run (MistralAgent invoke) user_input ''output'' = Some out
         \<and> prefix ''[ERROR]'' out \<and> suffix (str e) out \<and> out \<noteq> []))"
proof (intro conjI impI)
  assume "invoke (math_prompt (get st ''input'' [])) = Inl e"
  then show "math_node invoke st =
      st(''output'' \<mapsto> ''[ERROR] Math Error: Could not solve the problem. Error: '' @ str e)"
    by (rule math_node_raise)
next
  assume "invoke (summary_prompt (text_to_summarize (get st ''input'' []))) = Inl e"
  then show "summarizer_node invoke st =
      st(''output'' \<mapsto> ''[ERROR] Summary Error: Could not summarize the text. Error: '' @ str e)"
    by (rule summarizer_node_raise)
next
  assume "falsy st ''output'' \<and> invoke (general_prompt (get st ''input'' [])) = Inl e"
  then show "fst (final_node invoke st) =
      st(''output'' \<mapsto> ''[ERROR] Error: Could not process your request. Error: '' @ str e)"
    by (simp add: fst_final_node final_fallback_raise)
next
  let ?s1 = "router_node (initial_state user_input)"
  assume h: "invoke (math_prompt user_input) = Inl e
        \<and> invoke (summary_prompt (text_to_summarize user_input)) = Inl e
        \<and> invoke (general_prompt user_input) = Inl e"
  have m: "math_node invoke ?s1 ''output'' =
      Some (''[ERROR]'' @ '' Math Error: Could not solve the problem. Error: '' @ str e)"
    using h by (simp add: math_node_raise initial_input)
  have s: "summarizer_node invoke ?s1 ''output'' =
      Some (''[ERROR]'' @ '' Summary Error: Could not summarize the text. Error: '' @ str e)"
    using h by (simp add: summarizer_node_raise initial_input)
  have f: "final_fallback invoke ?s1 ''output'' =
      Some (''[ERROR]'' @ '' Error: Could not process your request. Error: '' @ str e)"
    using h by (simp add: final_fallback_raise initial_input initial_falsy)
  have "\<exists>t. run (MistralAgent invoke) user_input ''output'' = Some (''[ERROR]'' @ t @ str e)"
  proof (cases "?s1 ''next'' = Some ''math''")
    case True
    then have "run (MistralAgent invoke) user_input = math_node invoke ?s1"
      by (simp add: run_result)
    with m show ?thesis by (simp only: exI)
  next
    case nm: False
    show ?thesis
    proof (cases "?s1 ''next'' = Some ''summarizer''")
      case True
      with nm have "run (MistralAgent invoke) user_input = summarizer_node invoke ?s1"
        by (simp add: run_result)
      with s show ?thesis by (simp only: exI)
    next
      case False
      with nm have "run (MistralAgent invoke) user_input = final_fallback invoke ?s1"
        by (simp add: run_result)
      with f show ?thesis by (simp only: exI)
    qed
  qed
  then obtain t where "run (MistralAgent invoke) user_input ''output'' = Some (''[ERROR]'' @ t @ str e)"
    by (rule exE)
  with error_string [of t "str e"]
  show "\<exists>out. run (MistralAgent invoke) user_input ''output'' = Some out
         \<and> prefix ''[ERROR]'' out \<and> suffix (str e) out \<and> out \<noteq> []"
    by (intro exI [of _ "''[ERROR]'' @ t @ str e"]) (simp only: simp_thms)
qed

theorem backend_exception_caught_witness:
  "math_node (\<lambda>prompt. Inl (Exception ''timeout'')) (initial_state ''2+2'') =
     (initial_state ''2+2'')
       (''output'' \<mapsto> ''[ERROR] Math Error: Could not solve the problem. Error: timeout'')
   \<and> summarizer_node (\<lambda>prompt. Inl (Exception ''timeout'')) (initial_state ''2+2'') =
     (initial_state ''2+2'')
       (''output'' \<mapsto> ''[ERROR] Summary Error: Could not summarize the text. Error: timeout'')
   \<and> fst (final_node (\<lambda>prompt. Inl (Exception ''timeout'')) (initial_state ''2+2'')) =
     (initial_state ''2+2'')
       (''output'' \<mapsto> ''[ERROR] Error: Could not process your request. Error: timeout'')
   \<and> (\<exists>out. run (MistralAgent (\<lambda>prompt. Inl (Exception ''timeout''))) ''2+2'' ''output'' = Some out
         \<and> prefix ''[ERROR]'' out \<and> suffix ''timeout'' out \<and> out \<noteq> [])"
proof -
  note T = backend_exception_caught [where invoke = "\<lambda>prompt. Inl (Exception ''timeout'')"
      and st = "initial_state ''2+2''" and e = "Exception ''timeout''" and user_input = "''2+2''"]
  have f: "falsy (initial_state ''2+2'') ''output''"
    by (simp add: falsy_def initial_state_def)
  have 1: "math_node (\<lambda>prompt. Inl (Exception ''timeout'')) (initial_state ''2+2'') =
     (initial_state ''2+2'')
       (''output'' \<mapsto> ''[ERROR] Math Error: Could not solve the problem. Error: timeout'')"
    using T [THEN conjunct1] by simp
  have 2: "summarizer_node (\<lambda>prompt. Inl (Exception ''timeout'')) (initial_state ''2+2'') =
     (initial_state ''2+2'')
       (''output'' \<mapsto> ''[ERROR] Summary Error: Could not summarize the text. Error: timeout'')"
    using T [THEN conjunct2, THEN conjunct1] by simp
  have 3: "fst (final_node (\<lambda>prompt. Inl (Exception ''timeout'')) (initial_state ''2+2'')) =
     (initial_state ''2+2'')
       (''output'' \<mapsto> ''[ERROR] Error: Could not process your request. Error: timeout'')"
    using T [THEN conjunct2, THEN conjunct2, THEN conjunct1] f by simp
  have 4: "\<exists>out. run (MistralAgent (\<lambda>prompt. Inl (Exception ''timeout''))) ''2+2'' ''output'' = Some out
         \<and> prefix ''[ERROR]'' out \<and> suffix ''timeout'' out \<and> out \<noteq> []"
    using T [THEN conjunct2, THEN conjunct2, THEN conjunct2] by simp
  from 1 2 3 4 show ?thesis by (intro conjI)
qed

text \<open>
  C7. Whatever exception the graph execution raises, \<open>run\<close> returns a state: the input
  as given, \<open>processing_type\<close> and \<open>next\<close> set to \<open>error\<close>, and an output made of
  \<open>[ERROR] Agent Error: \<close> and the message. When the graph returns normally, \<open>run\<close>
  returns its result. \<open>run\<close> has no third outcome: it never raises.
\<close>

theorem run_catches_exception:
  "(graph self (initial_state user_input) = Inl e \<longrightarrow>
      run self user_input =
        [''input'' \<mapsto> user_input,
         ''output'' \<mapsto> ''[ERROR] Agent Error: '' @ str e,
         ''next'' \<mapsto> ''error'',
         ''processing_type'' \<mapsto> ''error''])
   \<and> (graph self (initial_state user_input) = Inr result \<longrightarrow> run self user_input = result)"
  by (simp add: run_def)

theorem run_catches_exception_witness:
  "run \<lparr>llm = (\<lambda>prompt. Inr ''ok''), graph = (\<lambda>st. Inl (Exception ''recursion limit reached''))\<rparr>
       ''2+2'' =
     [''input'' \<mapsto> ''2+2'',
      ''output'' \<mapsto> ''[ERROR] Agent Error: recursion limit reached'',
      ''next'' \<mapsto> ''error'',
      ''processing_type'' \<mapsto> ''error'']"
  using run_catches_exception [where self = "\<lparr>llm = (\<lambda>prompt. Inr ''ok''),
        graph = (\<lambda>st. Inl (Exception ''recursion limit reached''))\<rparr>"
      and user_input = "''2+2''" and e = "Exception ''recursion limit reached''", THEN conjunct1]
  by simp

text \<open>
  C8. When the output is already a non-empty string, \<open>final_node\<close> returns the state
  exactly as it received it, every key with the value it had, and prints the lines
  rendered from that state.
\<close>

theorem presenter_keeps_state:
  "st ''output'' = Some out \<and> out \<noteq> [] \<longrightarrow> final_node invoke st = (st, final_print st)"
  by (simp add: final_node_def final_fallback_def falsy_def)

theorem presenter_keeps_state_witness:
  "final_node (\<lambda>prompt. Inr ''unused'')
       [''input'' \<mapsto> ''2+2'', ''output'' \<mapsto> ''[MATH] Math Solution: 4'', ''next'' \<mapsto> ''math'',
        ''processing_type'' \<mapsto> ''mathematical''] =
     ([''input'' \<mapsto> ''2+2'', ''output'' \<mapsto> ''[MATH] Math Solution: 4'', ''next'' \<mapsto> ''math'',
       ''processing_type'' \<mapsto> ''mathematical''],
      final_print [''input'' \<mapsto> ''2+2'', ''output'' \<mapsto> ''[MATH] Math Solution: 4'',
        ''next'' \<mapsto> ''math'', ''processing_type'' \<mapsto> ''mathematical''])"
  by (rule presenter_keeps_state [where out = "''[MATH] Math Solution: 4''", THEN mp]) simp

lemma router_node_category:
  "(router_node st ''processing_type'' = Some ''mathematical'') = (router_node st ''next'' = Some ''math'')"
  "(router_node st ''processing_type'' = Some ''summarization'') = (router_node st ''next'' = Some ''summarizer'')"
  "(router_node st ''processing_type'' = Some ''general'') = (router_node st ''next'' = Some ''fallback'')"
  by (simp_all add: router_node_def Let_def)

lemma router_node_category_set:
  "router_node st ''processing_type'' = Some ''mathematical''
   \<or> router_node st ''processing_type'' = Some ''summarization''
   \<or> router_node st ''processing_type'' = Some ''general''"
  by (simp add: router_node_def Let_def)

lemma math_node_frame: "k \<noteq> ''output'' \<Longrightarrow> math_node invoke st k = st k"
  by (cases "invoke (math_prompt (get st ''input'' []))") (simp_all add: math_node_def)

lemma summarizer_node_frame: "k \<noteq> ''output'' \<Longrightarrow> summarizer_node invoke st k = st k"
  by (cases "invoke (summary_prompt (text_to_summarize (get st ''input'' [])))")
    (simp_all add: summarizer_node_def)

lemma final_fallback_frame: "k \<noteq> ''output'' \<Longrightarrow> final_fallback invoke st k = st k"
  by (cases "invoke (general_prompt (get st ''input'' []))") (simp_all add: final_fallback_def)

lemma initial_output: "router_node (initial_state user_input) ''output'' = Some []"
  by (simp add: router_node_output) (simp add: initial_state_def)

lemma truthy_not_empty: "\<not> falsy st ''output'' \<Longrightarrow> st ''output'' \<noteq> Some []"
  by (simp add: falsy_iff)

lemma writers_two:
  assumes "s1 ''output'' = s0 ''output''" and "s2 ''output'' \<noteq> s1 ''output''"
  shows "output_writers s0 [(Router, s1), (n, s2), (Final, s2)] = [n]"
    and "output_writers s0 [(Router, s1), (Final, s2)] = [Final]"
  using assms by simp_all

text \<open>
  C6. In every run started by \<open>run\<close> the router executes first and leaves the output
  empty, as it was initially; the category it assigns is one of \<open>mathematical\<close>,
  \<open>summarization\<close>, \<open>general\<close> and is still the one in the returned state. For
  \<open>mathematical\<close> the nodes executed are router, math, final, and the math node is the
  only one to write the output; for \<open>summarization\<close> they are router, summarizer, final,
  and the summarizer node is the only writer; for \<open>general\<close> they are router and final,
  no Responder node runs in between, and the output, empty after the router, is written
  by the fallback branch of the final node alone. The returned output is non-empty.
\<close>

theorem single_output_writer:
  "initial_state user_input ''output'' = Some []
   \<and> router_node (initial_state user_input) ''output'' = Some []
   \<and> (router_node (initial_state user_input) ''processing_type'' = Some ''mathematical''
      \<or> router_node (initial_state user_input) ''processing_type'' = Some ''summarization''
      \<or> router_node (initial_state user_input) ''processing_type'' = Some ''general'')
   \<and> (router_node (initial_state user_input) ''processing_type'' = Some ''mathematical'' \<longrightarrow>
        (\<exists>s2. s2 = math_node invoke (router_node (initial_state user_input))
           \<and> exec invoke Router (initial_state user_input) =
               Inr [(Router, router_node (initial_state user_input)), (Math, s2), (Final, s2)]
           \<and> output_writers (initial_state user_input)
                [(Router, router_node (initial_state user_input)), (Math, s2), (Final, s2)] = [Math]))
   \<and> (router_node (initial_state user_input) ''processing_type'' = Some ''summarization'' \<longrightarrow>
        (\<exists>s2. s2 = summarizer_node invoke (router_node (initial_state user_input))
           \<and> exec invoke Router (initial_state user_input) =
               Inr [(Router, router_node (initial_state user_input)), (Summarizer, s2), (Final, s2)]
           \<and> output_writers (initial_state user_input)
                [(Router, router_node (initial_state user_input)), (Summarizer, s2), (Final, s2)] =
               [Summarizer]))
   \<and> (router_node (initial_state user_input) ''processing_type'' = Some ''general'' \<longrightarrow>
        (\<exists>s2. s2 = final_fallback invoke (router_node (initial_state user_input))
           \<and> exec invoke Router (initial_state user_input) =
               Inr [(Router, router_node (initial_state user_input)), (Final, s2)]
           \<and> output_writers (initial_state user_input)
                [(Router, router_node (initial_state user_input)), (Final, s2)] = [Final]))
   \<and> (\<exists>out. run (MistralAgent invoke) user_input ''output'' = Some out \<and> out \<noteq> [])
   \<and> run (MistralAgent invoke) user_input ''processing_type'' =
       router_node (initial_state user_input) ''processing_type''"
proof -
  let ?s0 = "initial_state user_input"
  let ?s1 = "router_node ?s0"
  have o0: "?s0 ''output'' = Some []"
    by (simp add: initial_state_def)
  have o1: "?s1 ''output'' = Some []"
    by (rule initial_output)
  have eq: "?s1 ''output'' = ?s0 ''output''"
    by (simp only: o0 o1)
  have cat: "?s1 ''processing_type'' = Some ''mathematical''
      \<or> ?s1 ''processing_type'' = Some ''summarization''
      \<or> ?s1 ''processing_type'' = Some ''general''"
    by (rule router_node_category_set)
  have m: "?s1 ''processing_type'' = Some ''mathematical'' \<longrightarrow>
        (\<exists>s2. s2 = math_node invoke ?s1
           \<and> exec invoke Router ?s0 = Inr [(Router, ?s1), (Math, s2), (Final, s2)]
           \<and> output_writers ?s0 [(Router, ?s1), (Math, s2), (Final, s2)] = [Math])"
  proof
    assume "?s1 ''processing_type'' = Some ''mathematical''"
    then have n: "?s1 ''next'' = Some ''math''"
      by (simp only: router_node_category)
    have "math_node invoke ?s1 ''output'' \<noteq> ?s1 ''output''"
      unfolding o1 by (rule truthy_not_empty) (rule math_node_truthy)
    with eq have "output_writers ?s0 [(Router, ?s1), (Math, math_node invoke ?s1),
        (Final, math_node invoke ?s1)] = [Math]"
      by (rule writers_two(1))
    with route_math [OF n, of invoke]
    show "\<exists>s2. s2 = math_node invoke ?s1
           \<and> exec invoke Router ?s0 = Inr [(Router, ?s1), (Math, s2), (Final, s2)]
           \<and> output_writers ?s0 [(Router, ?s1), (Math, s2), (Final, s2)] = [Math]"
      by (simp only: simp_thms ex_simps)
  qed
  have s: "?s1 ''processing_type'' = Some ''summarization'' \<longrightarrow>
        (\<exists>s2. s2 = summarizer_node invoke ?s1
           \<and> exec invoke Router ?s0 = Inr [(Router, ?s1), (Summarizer, s2), (Final, s2)]
           \<and> output_writers ?s0 [(Router, ?s1), (Summarizer, s2), (Final, s2)] = [Summarizer])"
  proof
    assume "?s1 ''processing_type'' = Some ''summarization''"
    then have n: "?s1 ''next'' = Some ''summarizer''"
      by (simp only: router_node_category)
    have "summarizer_node invoke ?s1 ''output'' \<noteq> ?s1 ''output''"
      unfolding o1 by (rule truthy_not_empty) (rule summarizer_node_truthy)
    with eq have "output_writers ?s0 [(Router, ?s1), (Summarizer, summarizer_node invoke ?s1),
        (Final, summarizer_node invoke ?s1)] = [Summarizer]"
      by (rule writers_two(1))
    with route_summarizer [OF n, of invoke]
    show "\<exists>s2. s2 = summarizer_node invoke ?s1
           \<and> exec invoke Router ?s0 = Inr [(Router, ?s1), (Summarizer, s2), (Final, s2)]
           \<and> output_writers ?s0 [(Router, ?s1), (Summarizer, s2), (Final, s2)] = [Summarizer]"
      by (simp only: simp_thms ex_simps)
  qed
  have g: "?s1 ''processing_type'' = Some ''general'' \<longrightarrow>
        (\<exists>s2. s2 = final_fallback invoke ?s1
           \<and> exec invoke Router ?s0 = Inr [(Router, ?s1), (Final, s2)]
           \<and> output_writers ?s0 [(Router, ?s1), (Final, s2)] = [Final])"
  proof
    assume "?s1 ''processing_type'' = Some ''general''"
    then have n: "?s1 ''next'' = Some ''fallback''"
      by (simp only: router_node_category)
    have "final_fallback invoke ?s1 ''output'' \<noteq> ?s1 ''output''"
      unfolding o1 by (rule truthy_not_empty) (rule final_fallback_truthy)
    with eq have "output_writers ?s0 [(Router, ?s1), (Final, final_fallback invoke ?s1)] = [Final]"
      by (rule writers_two(2))
    with route_fallback [OF n, of invoke]
    show "\<exists>s2. s2 = final_fallback invoke ?s1
           \<and> exec invoke Router ?s0 = Inr [(Router, ?s1), (Final, s2)]
           \<and> output_writers ?s0 [(Router, ?s1), (Final, s2)] = [Final]"
      by (simp only: simp_thms ex_simps)
  qed
  have out: "\<exists>out. run (MistralAgent invoke) user_input ''output'' = Some out \<and> out \<noteq> []"
    using math_node_truthy [of invoke ?s1] summarizer_node_truthy [of invoke ?s1]
      final_fallback_truthy [of invoke ?s1]
    by (auto simp: run_result falsy_iff)
  have pt: "run (MistralAgent invoke) user_input ''processing_type'' = ?s1 ''processing_type''"
    by (simp add: run_result math_node_frame summarizer_node_frame final_fallback_frame)
  from o0 o1 cat m s g out pt show ?thesis
    by (intro conjI)
qed

lemma eval_category:
  "router_node (initial_state ''2+2'') ''processing_type'' = Some ''mathematical''"
  "router_node (initial_state ''summary please'') ''processing_type'' = Some ''summarization''"
  "router_node (initial_state ''Hello'') ''processing_type'' = Some ''general''"
  by (simp_all add: router_node_def initial_state_def get_def lower_def lower_char_def is_upper_def
      math_patterns_def summary_keywords_def)

theorem single_output_writer_witness:
  "(\<exists>s2. s2 = math_node (\<lambda>prompt. Inr ''4'') (router_node (initial_state ''2+2''))
       \<and> exec (\<lambda>prompt. Inr ''4'') Router (initial_state ''2+2'') =
           Inr [(Router, router_node (initial_state ''2+2'')), (Math, s2), (Final, s2)]
       \<and> output_writers (initial_state ''2+2'')
            [(Router, router_node (initial_state ''2+2'')), (Math, s2), (Final, s2)] = [Math])
   \<and> (\<exists>s2. s2 = summarizer_node (\<lambda>prompt. Inr ''4'') (router_node (initial_state ''summary please''))
       \<and> exec (\<lambda>prompt. Inr ''4'') Router (initial_state ''summary please'') =
           Inr [(Router, router_node (initial_state ''summary please'')), (Summarizer, s2), (Final, s2)]
       \<and> output_writers (initial_state ''summary please'')
            [(Router, router_node (initial_state ''summary please'')), (Summarizer, s2), (Final, s2)] =
           [Summarizer])
   \<and> (\<exists>s2. s2 = final_fallback (\<lambda>prompt. Inr ''4'') (router_node (initial_state ''Hello''))
       \<and> exec (\<lambda>prompt. Inr ''4'') Router (initial_state ''Hello'') =
           Inr [(Router, router_node (initial_state ''Hello'')), (Final, s2)]
       \<and> output_writers (initial_state ''Hello'')
            [(Router, router_node (initial_state ''Hello'')), (Final, s2)] = [Final])"
proof (intro conjI)
  note T = single_output_writer [where invoke = "\<lambda>prompt. Inr ''4''"]
  show "\<exists>s2. s2 = math_node (\<lambda>prompt. Inr ''4'') (router_node (initial_state ''2+2''))
       \<and> exec (\<lambda>prompt. Inr ''4'') Router (initial_state ''2+2'') =
           Inr [(Router, router_node (initial_state ''2+2'')), (Math, s2), (Final, s2)]
       \<and> output_writers (initial_state ''2+2'')
            [(Router, router_node (initial_state ''2+2'')), (Math, s2), (Final, s2)] = [Math]"
    by (rule T [where user_input = "''2+2''", THEN conjunct2, THEN conjunct2, THEN conjunct2,
          THEN conjunct1, THEN mp, OF eval_category(1)])
  show "\<exists>s2. s2 = summarizer_node (\<lambda>prompt. Inr ''4'') (router_node (initial_state ''summary please''))
       \<and> exec (\<lambda>prompt. Inr ''4'') Router (initial_state ''summary please'') =
           Inr [(Router, router_node (initial_state ''summary please'')), (Summarizer, s2), (Final, s2)]
       \<and> output_writers (initial_state ''summary please'')
            [(Router, router_node (initial_state ''summary please'')), (Summarizer, s2), (Final, s2)] =
           [Summarizer]"
    by (rule T [where user_input = "''summary please''", THEN conjunct2, THEN conjunct2,
          THEN conjunct2, THEN conjunct2, THEN conjunct1, THEN mp, OF eval_category(2)])
  show "\<exists>s2. s2 = final_fallback (\<lambda>prompt. Inr ''4'') (router_node (initial_state ''Hello''))
       \<and> exec (\<lambda>prompt. Inr ''4'') Router (initial_state ''Hello'') =
           Inr [(Router, router_node (initial_state ''Hello'')), (Final, s2)]
       \<and> output_writers (initial_state ''Hello'')
            [(Router, router_node (initial_state ''Hello'')), (Final, s2)] = [Final]"
    by (rule T [where user_input = "''Hello''", THEN conjunct2, THEN conjunct2,
          THEN conjunct2, THEN conjunct2, THEN conjunct2, THEN conjunct1, THEN mp,
          OF eval_category(3)])
qed

lemma math_node_tag:
  "\<exists>out. math_node invoke st ''output'' = Some out \<and> \<not> prefix ''[GENERAL]'' out"
  by (cases "invoke (math_prompt (get st ''input'' []))") (simp_all add: math_node_def)

lemma summarizer_node_tag:
  "\<exists>out. summarizer_node invoke st ''output'' = Some out \<and> \<not> prefix ''[GENERAL]'' out"
  by (cases "invoke (summary_prompt (text_to_summarize (get st ''input'' [])))")
    (simp_all add: summarizer_node_def)

text \<open>
  C10. The math node and the summarizer node leave a non-empty output on the success
  branch and on the exception branch alike, so the final node that follows either of
  them skips its fallback branch and returns the state as it is. Consequently a request
  whose output starts with \<open>[GENERAL]\<close> took the fallback route.
\<close>

theorem general_tag_only_on_fallback:
  "\<not> falsy (math_node invoke st) ''output''
   \<and> \<not> falsy (summarizer_node invoke st) ''output''
   \<and> final_node invoke (math_node invoke st) =
       (math_node invoke st, final_print (math_node invoke st))
   \<and> final_node invoke (summarizer_node invoke st) =
       (summarizer_node invoke st, final_print (summarizer_node invoke st))
   \<and> (run (MistralAgent invoke) user_input ''output'' = Some out \<and> prefix ''[GENERAL]'' out \<longrightarrow>
        run (MistralAgent invoke) user_input ''next'' = Some ''fallback'')"
proof (intro conjI impI)
  show "\<not> falsy (math_node invoke st) ''output''"
    by (rule math_node_truthy)
  show "\<not> falsy (summarizer_node invoke st) ''output''"
    by (rule summarizer_node_truthy)
  show "final_node invoke (math_node invoke st) =
      (math_node invoke st, final_print (math_node invoke st))"
    by (simp add: final_node_def Let_def final_fallback_id math_node_truthy)
  show "final_node invoke (summarizer_node invoke st) =
      (summarizer_node invoke st, final_print (summarizer_node invoke st))"
    by (simp add: final_node_def Let_def final_fallback_id summarizer_node_truthy)
next
  let ?s1 = "router_node (initial_state user_input)"
  assume h: "run (MistralAgent invoke) user_input ''output'' = Some out \<and> prefix ''[GENERAL]'' out"
  have nm: "?s1 ''next'' \<noteq> Some ''math''"
  proof
    assume "?s1 ''next'' = Some ''math''"
    then have "run (MistralAgent invoke) user_input = math_node invoke ?s1"
      by (simp add: run_result)
    with h math_node_tag [of invoke ?s1] show False by auto
  qed
  have ns: "?s1 ''next'' \<noteq> Some ''summarizer''"
  proof
    assume "?s1 ''next'' = Some ''summarizer''"
    then have "run (MistralAgent invoke) user_input = summarizer_node invoke ?s1"
      by (simp add: run_result)
    with h summarizer_node_tag [of invoke ?s1] show False by auto
  qed
  from nm ns have r: "run (MistralAgent invoke) user_input = final_fallback invoke ?s1"
    by (simp add: run_result)
  from nm ns router_node_next [of "initial_state user_input"]
  have "?s1 ''next'' = Some ''fallback''" by blast
  with r show "run (MistralAgent invoke) user_input ''next'' = Some ''fallback''"
    by (simp add: final_fallback_frame)
qed

lemma eval_hello_run:
  "run (MistralAgent (\<lambda>prompt. Inr ''Hi!'')) ''Hello'' ''output'' =
     Some ''[GENERAL] General Response:\<newline>Hi!''"
  using eval_category(3) [unfolded router_node_category]
  by (simp add: run_result final_fallback_def initial_falsy)

theorem general_tag_only_on_fallback_witness:
  "run (MistralAgent (\<lambda>prompt. Inr ''Hi!'')) ''Hello'' ''next'' = Some ''fallback''"
proof (rule general_tag_only_on_fallback [where out = "''[GENERAL] General Response:\<newline>Hi!''"
      and st = Map.empty,
      THEN conjunct2, THEN conjunct2, THEN conjunct2, THEN conjunct2, THEN mp])
  show "run (MistralAgent (\<lambda>prompt. Inr ''Hi!'')) ''Hello'' ''output'' =
      Some ''[GENERAL] General Response:\<newline>Hi!''
    \<and> prefix ''[GENERAL]'' ''[GENERAL] General Response:\<newline>Hi!''"
    by (simp add: eval_hello_run)
qed

end
